theory Spec2Isabelle
  imports Main
begin

section \<open>Data model (app/models.py)\<close>

text \<open>
  Each SQLAlchemy model is a record holding the columns the handlers read or write; a table
  is the list of its rows. Timestamps, slugs, descriptions, categories, product images and
  the shop's name play no part in the order and payment handlers and are left out. Integer columns are Python
  integers, hence \<open>int\<close>. A nullable string column is a \<open>string option\<close>.
\<close>

record product =
  p_id :: string
  p_name :: string
  price :: int
  stock :: int
  visible :: bool

record order_item =
  oi_id :: string
  quantity :: int
  price_at_time :: int
  product_name :: string
  product_id :: "string option"
  order_id :: string

record order =
  o_id :: string
  order_number :: string
  status :: string
  customer_name :: string
  customer_email :: string
  shipping_address :: string
  subtotal :: int
  shipping_cost :: int
  total :: int
  stripe_payment_intent_id :: "string option"
  confirmation_sent :: bool
  shipping_notified :: bool

record shop_settings =
  currency :: string
  shipping_fee :: int

text \<open>
  An email handed to \<open>send_email\<close> (app/services/email.py): subject, recipient
  and template name.
\<close>

record email =
  subject :: string
  recipient :: string
  template :: string

text \<open>
  The arguments of one \<open>PaymentIntent.create\<close> call; the metadata is the pair
  of the order id and the order number.
\<close>

record intent_request =
  amount :: int
  pi_currency :: string
  metadata :: "string \<times> string"

text \<open>
  The world a request handler runs in: the four tables, and a log of the calls made to
  the two external collaborators (the mailer and the payment gateway), in call order.
  A commit always succeeds: failures of the storage layer are not part of the model.
\<close>

record world =
  products :: "product list"
  orders :: "order list"
  order_items :: "order_item list"
  settings :: "shop_settings list"
  outbox :: "email list"
  intent_calls :: "intent_request list"
  refund_calls :: "string list"

section \<open>Queries and row updates\<close>

text \<open>
  A query that returns one row (\<open>Query.get\<close>, \<open>filter_by(...).first()\<close>)
  is \<open>find\<close> on the table. The handlers mutate the object the query returned;
  \<open>update_first\<close> rewrites that row, the first one satisfying the query's predicate.
\<close>

fun update_first :: "('a \<Rightarrow> bool) \<Rightarrow> ('a \<Rightarrow> 'a) \<Rightarrow> 'a list \<Rightarrow> 'a list" where
  "update_first P f [] = []"
| "update_first P f (x # xs) = (if P x then f x # xs else x # update_first P f xs)"

definition get_product :: "product list \<Rightarrow> string \<Rightarrow> product option" where
  "get_product ps pid = find (\<lambda>p. p_id p = pid) ps"

definition get_order :: "order list \<Rightarrow> string \<Rightarrow> order option" where
  "get_order os oid = find (\<lambda>r. o_id r = oid) os"

definition order_by_intent :: "order list \<Rightarrow> string \<Rightarrow> order option" where
  "order_by_intent os pi = find (\<lambda>r. stripe_payment_intent_id r = Some pi) os"

definition items_of :: "world \<Rightarrow> order \<Rightarrow> order_item list" where
  "items_of s ord = filter (\<lambda>i. order_id i = o_id ord) (order_items s)"

text \<open>Python truthiness of an optional string: \<open>None\<close> and the empty string are falsy.\<close>

fun truthy :: "string option \<Rightarrow> bool" where
  "truthy None = False"
| "truthy (Some v) = (v \<noteq> [])"

section \<open>Admin dashboard (app/admin/routes.py, dashboard)\<close>

definition paid_orders :: "order list \<Rightarrow> order list" where
  "paid_orders os = filter (\<lambda>r. status r \<notin> set [''PENDING'', ''CANCELLED'']) os"

definition total_revenue :: "order list \<Rightarrow> int" where
  "total_revenue os = sum_list (map total (paid_orders os))"

definition pending_count :: "order list \<Rightarrow> nat" where
  "pending_count os = length (filter (\<lambda>r. status r = ''PENDING'') os)"

text \<open>
  The revenue figure in the words of the specification: every order contributes its total,
  except the PENDING and the CANCELLED ones, which contribute nothing.
\<close>

fun revenue_spec :: "order list \<Rightarrow> int" where
  "revenue_spec [] = 0"
| "revenue_spec (ord # os) =
     (if status ord = ''PENDING'' \<or> status ord = ''CANCELLED'' then 0 else total ord)
       + revenue_spec os"

section \<open>Payment webhook (app/api/routes.py, stripe_webhook)\<close>

text \<open>
  The request carries the raw payload and the optional \<open>Stripe-Signature\<close> header.
  A verified event is reduced to the two fields the handler reads: \<open>event["type"]\<close>
  and \<open>event["data"]["object"]["id"]\<close>. The gateway's \<open>verify_webhook\<close> is a
  parameter; \<open>None\<close> is the exception it raises on a bad signature.
\<close>

record event =
  ev_type :: string
  ev_pi :: string

record webhook_request =
  payload :: string
  signature :: "string option"

datatype webhook_response = MissingSignature | InvalidSignature | Received

text \<open>One turn of the stock loop: \<open>product.stock = max(0, product.stock - item.quantity)\<close>.\<close>

definition decrement_item :: "product list \<Rightarrow> order_item \<Rightarrow> product list" where
  "decrement_item ps item =
     (case product_id item of
        None \<Rightarrow> ps
      | Some pid \<Rightarrow>
          if pid = [] then ps
          else (case get_product ps pid of
                  None \<Rightarrow> ps
                | Some product \<Rightarrow>
                    update_first (\<lambda>p. p_id p = pid)
                      (\<lambda>p. p\<lparr>stock := max 0 (stock p - quantity item)\<rparr>) ps))"

fun decrement_stock :: "product list \<Rightarrow> order_item list \<Rightarrow> product list" where
  "decrement_stock ps [] = ps"
| "decrement_stock ps (item # rest) = decrement_stock (decrement_item ps item) rest"

definition order_confirmation :: "order \<Rightarrow> email" where
  "order_confirmation ord =
     \<lparr>subject = ''Order Confirmed - '' @ order_number ord,
      recipient = customer_email ord,
      template = ''emails/order_confirmation.html''\<rparr>"

text \<open>
  The mailer is a parameter: \<open>send_email m\<close> is true when the call returns and false
  when it raises. Either way the call is an attempt and is appended to the outbox.
\<close>

definition mark_paid :: "(email \<Rightarrow> bool) \<Rightarrow> string \<Rightarrow> order \<Rightarrow> world \<Rightarrow> world" where
  "mark_paid send_email pi ord s =
     (let s1 = s\<lparr>orders := update_first (\<lambda>r. stripe_payment_intent_id r = Some pi)
                               (\<lambda>r. r\<lparr>status := ''PAID''\<rparr>) (orders s),
                   products := decrement_stock (products s) (items_of s ord)\<rparr>;
          mail = order_confirmation ord;
          s2 = s1\<lparr>outbox := outbox s1 @ [mail]\<rparr>
      in if send_email mail
         then s2\<lparr>orders := update_first (\<lambda>r. stripe_payment_intent_id r = Some pi)
                                (\<lambda>r. r\<lparr>confirmation_sent := True\<rparr>) (orders s2)\<rparr>
         else s2)"

definition stripe_webhook ::
  "(string \<Rightarrow> string \<Rightarrow> event option) \<Rightarrow> (email \<Rightarrow> bool) \<Rightarrow> webhook_request \<Rightarrow> world
     \<Rightarrow> webhook_response \<times> world" where
  "stripe_webhook verify_webhook send_email req s =
     (case signature req of
        None \<Rightarrow> (MissingSignature, s)
      | Some sg \<Rightarrow>
          if sg = [] then (MissingSignature, s)
          else (case verify_webhook (payload req) sg of
                  None \<Rightarrow> (InvalidSignature, s)
                | Some ev \<Rightarrow>
                    if ev_type ev = ''payment_intent.succeeded''
                    then (case order_by_intent (orders s) (ev_pi ev) of
                            None \<Rightarrow> (Received, s)
                          | Some ord \<Rightarrow>
                              if status ord = ''PENDING''
                              then (Received, mark_paid send_email (ev_pi ev) ord s)
                              else (Received, s))
                    else (Received, s)))"

text \<open>A sequence of webhook deliveries, each with its own mailer outcome.\<close>

fun deliver_all ::
  "(string \<Rightarrow> string \<Rightarrow> event option) \<Rightarrow> ((email \<Rightarrow> bool) \<times> webhook_request) list \<Rightarrow> world
     \<Rightarrow> world" where
  "deliver_all verify_webhook [] s = s"
| "deliver_all verify_webhook ((send_email, req) # rest) s =
     deliver_all verify_webhook rest (snd (stripe_webhook verify_webhook send_email req s))"

section \<open>Admin order handlers (app/admin/routes.py)\<close>

text \<open>
  The bodies of \<open>order_status\<close> and \<open>order_refund\<close>, as they run for a logged-in
  admin. A response is a 404, the re-rendered status form, or a redirect to the order page
  carrying one flashed message with its category.
\<close>

datatype page = NotFound404 | StatusForm | Redirect string string

definition valid :: "string list" where
  "valid = [''PENDING'', ''PAID'', ''SHIPPED'', ''DELIVERED'', ''CANCELLED'', ''REFUNDED'']"

definition shipping_notification :: "order \<Rightarrow> email" where
  "shipping_notification ord =
     \<lparr>subject = ''Your Order Has Shipped - '' @ order_number ord,
      recipient = customer_email ord,
      template = ''emails/shipping_update.html''\<rparr>"

definition order_status ::
  "(email \<Rightarrow> bool) \<Rightarrow> string \<Rightarrow> string option \<Rightarrow> world \<Rightarrow> page \<times> world" where
  "order_status send_email oid new_status s =
     (case get_order (orders s) oid of
        None \<Rightarrow> (NotFound404, s)
      | Some ord \<Rightarrow>
          (case new_status of
             None \<Rightarrow> (StatusForm, s)
           | Some ns \<Rightarrow>
               if ns \<in> set valid
               then (let s1 = s\<lparr>orders := update_first (\<lambda>r. o_id r = oid)
                                              (\<lambda>r. r\<lparr>status := ns\<rparr>) (orders s)\<rparr>
                     in if ns = ''SHIPPED'' \<and> \<not> shipping_notified ord
                        then (let mail = shipping_notification (ord\<lparr>status := ns\<rparr>);
                                  s2 = s1\<lparr>outbox := outbox s1 @ [mail]\<rparr>
                              in if send_email mail
                                 then (StatusForm,
                                       s2\<lparr>orders := update_first (\<lambda>r. o_id r = oid)
                                                       (\<lambda>r. r\<lparr>shipping_notified := True\<rparr>)
                                                       (orders s2)\<rparr>)
                                 else (StatusForm, s2))
                        else (StatusForm, s1))
               else (StatusForm, s)))"

text \<open>One turn of the restock loop: \<open>product.stock += item.quantity\<close>.\<close>

definition restock_item :: "product list \<Rightarrow> order_item \<Rightarrow> product list" where
  "restock_item ps item =
     (case product_id item of
        None \<Rightarrow> ps
      | Some pid \<Rightarrow>
          if pid = [] then ps
          else (case get_product ps pid of
                  None \<Rightarrow> ps
                | Some product \<Rightarrow>
                    update_first (\<lambda>p. p_id p = pid)
                      (\<lambda>p. p\<lparr>stock := stock p + quantity item\<rparr>) ps))"

fun restock :: "product list \<Rightarrow> order_item list \<Rightarrow> product list" where
  "restock ps [] = ps"
| "restock ps (item # rest) = restock (restock_item ps item) rest"

text \<open>
  For stating what the restock loop adds up to: the total quantity of the items of a list
  that hold a live reference to the product id \<open>pid\<close>.
\<close>

definition restocked :: "string \<Rightarrow> order_item list \<Rightarrow> int" where
  "restocked pid its =
     sum_list (map quantity (filter (\<lambda>i. product_id i = Some pid \<and> pid \<noteq> []) its))"

text \<open>
  \<open>stripe.Refund.create\<close> is a parameter: \<open>Inl msg\<close> is an exception whose text
  is \<open>msg\<close>. Every call is logged with the payment-intent id it was given.
\<close>

definition order_refund ::
  "(string \<Rightarrow> string + unit) \<Rightarrow> string \<Rightarrow> world \<Rightarrow> page \<times> world" where
  "order_refund refund_create oid s =
     (case get_order (orders s) oid of
        None \<Rightarrow> (NotFound404, s)
      | Some ord \<Rightarrow>
          (case stripe_payment_intent_id ord of
             None \<Rightarrow> (Redirect ''No payment to refund'' ''error'', s)
           | Some pi \<Rightarrow>
               if pi = [] then (Redirect ''No payment to refund'' ''error'', s)
               else if status ord = ''REFUNDED''
               then (Redirect ''Already refunded'' ''error'', s)
               else (case refund_create pi of
                       Inl msg \<Rightarrow>
                         (Redirect (''Refund failed: '' @ msg) ''error'',
                          s\<lparr>refund_calls := refund_calls s @ [pi]\<rparr>)
                     | Inr _ \<Rightarrow>
                         (Redirect ''Refund issued successfully'' ''success'',
                          s\<lparr>products := restock (products s) (items_of s ord),
                            orders := update_first (\<lambda>r. o_id r = oid)
                                        (\<lambda>r. r\<lparr>status := ''REFUNDED''\<rparr>) (orders s),
                            refund_calls := refund_calls s @ [pi]\<rparr>))))"

section \<open>Checkout (app/api/routes.py, create_payment_intent)\<close>

text \<open>
  The JSON body: \<open>items\<close> (absent means empty) and \<open>customer\<close>, whose name and
  email may be absent. \<open>c_address\<close> is the text \<open>json.dumps\<close> gives for the
  address. Item ids are strings and quantities are integers.
\<close>

record cart_item =
  item_id :: string
  item_quantity :: int

record customer =
  c_name :: "string option"
  c_email :: "string option"
  c_address :: string

record checkout_request =
  items :: "cart_item list"
  customer :: customer

datatype checkout_error =
    MissingFields
  | ProductNotFound string
  | InsufficientStock string int
  | GatewayFailure string

record payment_intent =
  pi_id :: string
  client_secret :: string

record checkout_ok =
  clientSecret :: string
  orderNumber :: string
  orderId :: string

text \<open>The dictionary the item loop appends to \<open>order_items\<close>.\<close>

record order_item_dict =
  d_product_id :: string
  d_product_name :: string
  d_price_at_time :: int
  d_quantity :: int

text \<open>
  What the request draws from outside the store: the generated order number, the generated
  row ids (number 0 for the order, then one per order item), and the gateway's
  \<open>PaymentIntent.create\<close>, where \<open>Inl msg\<close> is an exception.
\<close>

record checkout_env =
  generate_order_number :: string
  generate_cuid :: "nat \<Rightarrow> string"
  stripe_create_pi :: "intent_request \<Rightarrow> string + payment_intent"

text \<open>
  \<open>product_map\<close>: the visible products whose id occurs in the request, keyed by id.
  A dictionary comprehension keeps the last row of a key, hence the \<open>rev\<close>.
\<close>

definition product_map :: "product list \<Rightarrow> string list \<Rightarrow> string \<Rightarrow> product option" where
  "product_map ps product_ids =
     map_of (rev (map (\<lambda>p. (p_id p, p))
                      (filter (\<lambda>p. p_id p \<in> set product_ids \<and> visible p) ps)))"

text \<open>The item loop, with the running subtotal and the list built so far.\<close>

fun validate_items ::
  "(string \<Rightarrow> product option) \<Rightarrow> cart_item list \<Rightarrow> int \<Rightarrow> order_item_dict list
     \<Rightarrow> checkout_error + (int \<times> order_item_dict list)" where
  "validate_items pm [] sub acc = Inr (sub, acc)"
| "validate_items pm (item # rest) sub acc =
     (case pm (item_id item) of
        None \<Rightarrow> Inl (ProductNotFound (item_id item))
      | Some product \<Rightarrow>
          if stock product < item_quantity item
          then Inl (InsufficientStock (p_name product) (stock product))
          else validate_items pm rest (sub + price product * item_quantity item)
                 (acc @ [\<lparr>d_product_id = p_id product,
                           d_product_name = p_name product,
                           d_price_at_time = price product,
                           d_quantity = item_quantity item\<rparr>]))"

definition new_order_item :: "string \<Rightarrow> string \<Rightarrow> order_item_dict \<Rightarrow> order_item" where
  "new_order_item oid iid d =
     \<lparr>oi_id = iid,
      quantity = d_quantity d,
      price_at_time = d_price_at_time d,
      product_name = d_product_name d,
      product_id = Some (d_product_id d),
      order_id = oid\<rparr>"

definition new_order_items ::
  "(nat \<Rightarrow> string) \<Rightarrow> string \<Rightarrow> order_item_dict list \<Rightarrow> order_item list" where
  "new_order_items cuid oid ds =
     map (\<lambda>(k, d). new_order_item oid (cuid (Suc k)) d) (enumerate 0 ds)"

definition get_shipping_fee :: "shop_settings list \<Rightarrow> int" where
  "get_shipping_fee st = (case st of [] \<Rightarrow> 500 | x # _ \<Rightarrow> shipping_fee x)"

definition get_currency :: "shop_settings list \<Rightarrow> string" where
  "get_currency st = (case st of [] \<Rightarrow> ''usd'' | x # _ \<Rightarrow> currency x)"

text \<open>
  The handler. A validation failure returns before anything is added to the session. When
  the gateway call raises, the request ends without a commit and the flushed order is
  rolled back with the session, so only the gateway call itself is left behind.
\<close>

definition create_payment_intent ::
  "checkout_env \<Rightarrow> checkout_request \<Rightarrow> world \<Rightarrow> (checkout_error + checkout_ok) \<times> world" where
  "create_payment_intent env req s =
     (if items req = [] \<or> \<not> truthy (c_name (customer req)) \<or> \<not> truthy (c_email (customer req))
      then (Inl MissingFields, s)
      else (case validate_items (product_map (products s) (map item_id (items req)))
                   (items req) 0 [] of
              Inl e \<Rightarrow> (Inl e, s)
            | Inr (sub, ds) \<Rightarrow>
                (let ship = get_shipping_fee (settings s);
                     cur = get_currency (settings s);
                     tot = sub + ship;
                     ord = \<lparr>o_id = generate_cuid env 0,
                            order_number = generate_order_number env,
                            status = ''PENDING'',
                            customer_name = (case c_name (customer req) of Some n \<Rightarrow> n | None \<Rightarrow> []),
                            customer_email = (case c_email (customer req) of Some e \<Rightarrow> e | None \<Rightarrow> []),
                            shipping_address = c_address (customer req),
                            subtotal = sub,
                            shipping_cost = ship,
                            total = tot,
                            stripe_payment_intent_id = None,
                            confirmation_sent = False,
                            shipping_notified = False\<rparr>;
                     call = \<lparr>amount = tot, pi_currency = cur,
                             metadata = (o_id ord, order_number ord)\<rparr>
                 in (case stripe_create_pi env call of
                       Inl msg \<Rightarrow>
                         (Inl (GatewayFailure msg),
                          s\<lparr>intent_calls := intent_calls s @ [call]\<rparr>)
                     | Inr intent \<Rightarrow>
                         (Inr \<lparr>clientSecret = client_secret intent,
                               orderNumber = order_number ord,
                               orderId = o_id ord\<rparr>,
                          s\<lparr>orders := orders s
                                         @ [ord\<lparr>stripe_payment_intent_id := Some (pi_id intent)\<rparr>],
                            order_items := order_items s
                                         @ new_order_items (generate_cuid env) (o_id ord) ds,
                            intent_calls := intent_calls s @ [call]\<rparr>)))))"

text \<open>
  For stating the subtotal: the price of the product a cart item resolves to, at validation
  time (0 for an item that resolves to nothing, which validation rejects).
\<close>

definition unit_price :: "(string \<Rightarrow> product option) \<Rightarrow> cart_item \<Rightarrow> int" where
  "unit_price pm item = (case pm (item_id item) of None \<Rightarrow> 0 | Some p \<Rightarrow> price p)"

section \<open>Example data\<close>

text \<open>
  A small shop used to run the handlers on concrete input: one visible product, one hidden
  product, and one pending order of three dragons whose payment intent is \<open>pi_1\<close>.
\<close>

definition dragon :: product where
  "dragon = \<lparr>p_id = ''p1'', p_name = ''Dragon'', price = 1000, stock = 10, visible = True\<rparr>"

definition hidden_stand :: product where
  "hidden_stand = \<lparr>p_id = ''p2'', p_name = ''Stand'', price = 1299, stock = 30, visible = False\<rparr>"

definition demo_item :: order_item where
  "demo_item = \<lparr>oi_id = ''i1'', quantity = 3, price_at_time = 1000, product_name = ''Dragon'',
                 product_id = Some ''p1'', order_id = ''o1''\<rparr>"

definition demo_order :: order where
  "demo_order = \<lparr>o_id = ''o1'', order_number = ''ORD-A-B'', status = ''PENDING'',
                  customer_name = ''Ann'', customer_email = ''ann@example.com'',
                  shipping_address = ''{}'', subtotal = 3000, shipping_cost = 500, total = 3500,
                  stripe_payment_intent_id = Some ''pi_1'', confirmation_sent = False,
                  shipping_notified = False\<rparr>"

definition demo_world :: world where
  "demo_world = \<lparr>products = [dragon, hidden_stand], orders = [demo_order],
                  order_items = [demo_item], settings = [], outbox = [], intent_calls = [],
                  refund_calls = []\<rparr>"

text \<open>A verifier that accepts the signature \<open>good\<close> and reads the payload as the intent id.\<close>

definition demo_verify :: "string \<Rightarrow> string \<Rightarrow> event option" where
  "demo_verify pl sg =
     (if sg = ''good'' then Some \<lparr>ev_type = ''payment_intent.succeeded'', ev_pi = pl\<rparr> else None)"

definition demo_request :: webhook_request where
  "demo_request = \<lparr>payload = ''pi_1'', signature = Some ''good''\<rparr>"

definition mailer_up :: "email \<Rightarrow> bool" where
  "mailer_up m = True"

definition mailer_down :: "email \<Rightarrow> bool" where
  "mailer_down m = False"

definition refund_ok :: "string \<Rightarrow> string + unit" where
  "refund_ok pi = Inr ()"

definition refund_down :: "string \<Rightarrow> string + unit" where
  "refund_down pi = Inl ''card_declined''"

definition demo_cuid :: "nat \<Rightarrow> string" where
  "demo_cuid k = ''c'' @ replicate k (CHR ''x'')"

definition demo_create_pi :: "intent_request \<Rightarrow> string + payment_intent" where
  "demo_create_pi call = Inr \<lparr>pi_id = ''pi_2'', client_secret = ''secret''\<rparr>"

definition demo_env :: checkout_env where
  "demo_env = \<lparr>generate_order_number = ''ORD-X-Y'', generate_cuid = demo_cuid,
                stripe_create_pi = demo_create_pi\<rparr>"

definition ann :: customer where
  "ann = \<lparr>c_name = Some ''Ann'', c_email = Some ''ann@example.com'', c_address = ''{}''\<rparr>"

definition buy :: "string \<Rightarrow> int \<Rightarrow> cart_item" where
  "buy i q = \<lparr>item_id = i, item_quantity = q\<rparr>"

definition order_of :: "cart_item list \<Rightarrow> checkout_request" where
  "order_of its = \<lparr>items = its, customer = ann\<rparr>"

definition euro_settings :: shop_settings where
  "euro_settings = \<lparr>currency = ''eur'', shipping_fee = 700\<rparr>"

lemmas demo_defs =
  dragon_def hidden_stand_def demo_item_def demo_order_def demo_world_def demo_verify_def
  demo_request_def mailer_up_def mailer_down_def refund_ok_def refund_down_def demo_cuid_def
  demo_create_pi_def demo_env_def ann_def buy_def order_of_def euro_settings_def

section \<open>Facts about queries and row updates\<close>

lemma find_update_first_same:
  "(\<And>x. P x \<Longrightarrow> P (f x)) \<Longrightarrow> find P (update_first P f xs) = map_option f (find P xs)"
  by (induction xs) auto

lemma set_update_first: "set (update_first P f xs) \<subseteq> set xs \<union> f ` set xs"
  by (induction xs) auto

section \<open>Dashboard revenue\<close>

text \<open>
  Claim C10. The dashboard's total revenue is the sum of the totals of exactly the orders
  whose status is neither PENDING nor CANCELLED: it agrees with the figure computed order by
  order in the specification's words, and an order whose status is REFUNDED adds its total
  to the reported revenue.
\<close>

theorem dashboard_total_revenue:
  "total_revenue os = revenue_spec os
   \<and> (status r = ''REFUNDED'' \<longrightarrow>
        total_revenue (os @ r # os') = total_revenue (os @ os') + total r)"
proof
  show "total_revenue os = revenue_spec os"
    by (induction os) (auto simp: total_revenue_def paid_orders_def)
  show "status r = ''REFUNDED'' \<longrightarrow>
        total_revenue (os @ r # os') = total_revenue (os @ os') + total r"
    by (simp add: total_revenue_def paid_orders_def)
qed

theorem dashboard_total_revenue_witness:
  "status (demo_order\<lparr>status := ''REFUNDED''\<rparr>) = ''REFUNDED''
   \<and> total_revenue ([demo_order] @ demo_order\<lparr>status := ''REFUNDED''\<rparr> # [])
       = total_revenue ([demo_order] @ []) + 3500
   \<and> total_revenue [demo_order, demo_order\<lparr>status := ''REFUNDED''\<rparr>] = 3500
   \<and> revenue_spec [demo_order, demo_order\<lparr>status := ''REFUNDED''\<rparr>] = 3500"
  using dashboard_total_revenue
          [of "[demo_order]" "demo_order\<lparr>status := ''REFUNDED''\<rparr>" "[]"]
  by (simp add: demo_defs total_revenue_def paid_orders_def)

section \<open>Stock after payment webhooks\<close>

lemma decrement_item_nonneg:
  "\<forall>p\<in>set ps. 0 \<le> stock p \<Longrightarrow> \<forall>p\<in>set (decrement_item ps item). 0 \<le> stock p"
  using set_update_first [of "\<lambda>p. p_id p = the (product_id item)"
          "\<lambda>p. p\<lparr>stock := max 0 (stock p - quantity item)\<rparr>" ps]
  by (auto simp: decrement_item_def split: option.splits)

lemma decrement_stock_nonneg:
  "\<forall>p\<in>set ps. 0 \<le> stock p \<Longrightarrow> \<forall>p\<in>set (decrement_stock ps its). 0 \<le> stock p"
  by (induction its arbitrary: ps) (auto dest: decrement_item_nonneg)

lemma webhook_nonneg:
  "\<forall>p\<in>set (products s). 0 \<le> stock p \<Longrightarrow>
   \<forall>p\<in>set (products (snd (stripe_webhook v m req s))). 0 \<le> stock p"
  using decrement_stock_nonneg [of "products s"]
  by (auto simp: stripe_webhook_def mark_paid_def Let_def split: option.splits)

lemma deliver_all_nonneg:
  "\<forall>p\<in>set (products s). 0 \<le> stock p \<Longrightarrow>
   \<forall>p\<in>set (products (deliver_all v ds s)). 0 \<le> stock p"
proof (induction ds arbitrary: s)
  case Nil
  then show ?case by simp
next
  case (Cons d ds)
  obtain m req where d: "d = (m, req)" by (cases d)
  show ?case unfolding d deliver_all.simps
    by (rule Cons.IH) (rule webhook_nonneg [OF Cons.prems])
qed

lemma decrement_item_get:
  "product_id item = Some pid \<Longrightarrow> pid \<noteq> [] \<Longrightarrow> get_product ps pid = Some p \<Longrightarrow>
   get_product (decrement_item ps item) pid
     = Some (p\<lparr>stock := max 0 (stock p - quantity item)\<rparr>)"
  by (simp add: decrement_item_def get_product_def find_update_first_same)

text \<open>
  Claim C2. Starting from a catalogue in which no stock is negative, no product has negative
  stock after any sequence of webhook deliveries; and one decrement of a live product with
  stock \<open>s\<close> by an item of quantity \<open>q\<close> leaves \<open>max 0 (s - q)\<close>.
\<close>

theorem stock_never_negative:
  assumes "\<forall>p\<in>set (products s). 0 \<le> stock p"
    and "product_id item = Some pid" and "pid \<noteq> []" and "get_product ps pid = Some p"
  shows "(\<forall>p\<in>set (products (deliver_all verify_webhook ds s)). 0 \<le> stock p)
         \<and> get_product (decrement_item ps item) pid
             = Some (p\<lparr>stock := max 0 (stock p - quantity item)\<rparr>)"
  using deliver_all_nonneg [OF assms(1)] decrement_item_get [OF assms(2-4)] by simp

theorem stock_never_negative_witness:
  "list_all (\<lambda>p. 0 \<le> stock p) (products demo_world)
   \<and> product_id (demo_item\<lparr>quantity := 12\<rparr>) = Some ''p1''
   \<and> get_product [dragon, hidden_stand] ''p1'' = Some dragon
   \<and> list_all (\<lambda>p. 0 \<le> stock p)
        (products (deliver_all demo_verify
                     [(mailer_up, demo_request), (mailer_down, demo_request)] demo_world))
   \<and> get_product (decrement_item [dragon, hidden_stand] (demo_item\<lparr>quantity := 12\<rparr>)) ''p1''
       = Some (dragon\<lparr>stock := 0\<rparr>)"
  using stock_never_negative
          [of demo_world "demo_item\<lparr>quantity := 12\<rparr>" "''p1''" "[dragon, hidden_stand]" dragon
              demo_verify "[(mailer_up, demo_request), (mailer_down, demo_request)]"]
  by (simp add: demo_defs list_all_iff get_product_def)

section \<open>Replayed payment events\<close>

lemma order_by_intent_paid:
  "order_by_intent os pi = Some ord \<Longrightarrow>
   order_by_intent (update_first (\<lambda>r. stripe_payment_intent_id r = Some pi) (\<lambda>r. r\<lparr>status := st\<rparr>) os) pi
     = Some (ord\<lparr>status := st\<rparr>)"
  by (simp add: order_by_intent_def find_update_first_same)

lemma order_by_intent_sent:
  "order_by_intent os pi = Some ord \<Longrightarrow>
   order_by_intent (update_first (\<lambda>r. stripe_payment_intent_id r = Some pi) (\<lambda>r. r\<lparr>confirmation_sent := b\<rparr>) os) pi
     = Some (ord\<lparr>confirmation_sent := b\<rparr>)"
  by (simp add: order_by_intent_def find_update_first_same)

lemma mark_paid_lookup:
  assumes "order_by_intent (orders s) pi = Some ord"
  shows "order_by_intent (orders (mark_paid m pi ord s)) pi
           = Some (ord\<lparr>status := ''PAID'', confirmation_sent := (m (order_confirmation ord) \<or> confirmation_sent ord)\<rparr>)"
  using assms
  by (cases "m (order_confirmation ord)")
     (simp_all add: mark_paid_def Let_def order_by_intent_paid order_by_intent_sent)

lemma webhook_replay:
  "snd (stripe_webhook v m2 req (snd (stripe_webhook v m1 req s))) = snd (stripe_webhook v m1 req s)"
proof (cases "\<exists>sg ev ord. signature req = Some sg \<and> sg \<noteq> [] \<and> v (payload req) sg = Some ev \<and>
    ev_type ev = ''payment_intent.succeeded'' \<and> order_by_intent (orders s) (ev_pi ev) = Some ord \<and> status ord = ''PENDING''")
  case True
  then obtain sg ev ord where h: "signature req = Some sg" "sg \<noteq> []" "v (payload req) sg = Some ev"
    "ev_type ev = ''payment_intent.succeeded''" "order_by_intent (orders s) (ev_pi ev) = Some ord" "status ord = ''PENDING''"
    by blast
  have 1: "stripe_webhook v m1 req s = (Received, mark_paid m1 (ev_pi ev) ord s)"
    using h by (simp add: stripe_webhook_def)
  have 2: "stripe_webhook v m2 req (mark_paid m1 (ev_pi ev) ord s) = (Received, mark_paid m1 (ev_pi ev) ord s)"
    using h(1-4) mark_paid_lookup [OF h(5), of m1] by (simp add: stripe_webhook_def)
  show ?thesis by (simp add: 1 2)
next
  case False
  then have "stripe_webhook v m1 req s = (fst (stripe_webhook v m1 req s), s)"
    by (auto simp: stripe_webhook_def split: option.splits)
  moreover from False have "stripe_webhook v m2 req s = (fst (stripe_webhook v m2 req s), s)"
    by (auto simp: stripe_webhook_def split: option.splits)
  ultimately show ?thesis by (metis snd_conv)
qed

lemma mark_paid_effects:
  "products (mark_paid m pi ord s) = decrement_stock (products s) (items_of s ord)
   \<and> outbox (mark_paid m pi ord s) = outbox s @ [order_confirmation ord]"
  by (simp add: mark_paid_def Let_def)

text \<open>
  Claim C1. Take a verified \<open>payment_intent.succeeded\<close> event whose payment-intent id
  finds an order. If the order is not PENDING, the delivery changes nothing at all: status,
  stocks and the confirmation flag stay as they were. If it is PENDING, the first delivery
  decrements the stock once and attempts one confirmation email, and delivering the same
  event again changes nothing, whatever the mailer does on either delivery.
\<close>

theorem payment_webhook_idempotent:
  assumes "signature req = Some sg" and "sg \<noteq> []"
    and "verify_webhook (payload req) sg = Some ev"
    and "ev_type ev = ''payment_intent.succeeded''"
    and "order_by_intent (orders s) (ev_pi ev) = Some ord"
  shows "(status ord \<noteq> ''PENDING'' \<longrightarrow> stripe_webhook verify_webhook m req s = (Received, s))
         \<and> (status ord = ''PENDING'' \<longrightarrow>
              (\<exists>s1. stripe_webhook verify_webhook m1 req s = (Received, s1)
                    \<and> stripe_webhook verify_webhook m2 req s1 = (Received, s1)
                    \<and> products s1 = decrement_stock (products s) (items_of s ord)
                    \<and> outbox s1 = outbox s @ [order_confirmation ord]
                    \<and> map_option status (order_by_intent (orders s1) (ev_pi ev))
                        = Some ''PAID''))"
proof (intro conjI impI)
  assume "status ord \<noteq> ''PENDING''"
  with assms show "stripe_webhook verify_webhook m req s = (Received, s)"
    by (simp add: stripe_webhook_def)
next
  assume pending: "status ord = ''PENDING''"
  let ?s1 = "mark_paid m1 (ev_pi ev) ord s"
  have first: "stripe_webhook verify_webhook m1 req s = (Received, ?s1)"
    using assms pending by (simp add: stripe_webhook_def)
  have look: "order_by_intent (orders ?s1) (ev_pi ev)
                = Some (ord\<lparr>status := ''PAID'',
                     confirmation_sent := (m1 (order_confirmation ord) \<or> confirmation_sent ord)\<rparr>)"
    by (rule mark_paid_lookup [OF assms(5)])
  have second: "stripe_webhook verify_webhook m2 req ?s1 = (Received, ?s1)"
    using assms(1-4) look by (simp add: stripe_webhook_def)
  show "\<exists>s1. stripe_webhook verify_webhook m1 req s = (Received, s1)
             \<and> stripe_webhook verify_webhook m2 req s1 = (Received, s1)
             \<and> products s1 = decrement_stock (products s) (items_of s ord)
             \<and> outbox s1 = outbox s @ [order_confirmation ord]
             \<and> map_option status (order_by_intent (orders s1) (ev_pi ev)) = Some ''PAID''"
    using first second look mark_paid_effects [of m1 "ev_pi ev" ord s] by simp
qed

theorem payment_webhook_idempotent_witness:
  "stripe_webhook demo_verify mailer_up demo_request
       (demo_world\<lparr>orders := [demo_order\<lparr>status := ''PAID''\<rparr>]\<rparr>)
     = (Received, demo_world\<lparr>orders := [demo_order\<lparr>status := ''PAID''\<rparr>]\<rparr>)
   \<and> order_by_intent (orders demo_world) ''pi_1'' = Some demo_order
   \<and> status demo_order = ''PENDING''
   \<and> map stock (products (snd (stripe_webhook demo_verify mailer_up demo_request demo_world)))
       = [7, 30]
   \<and> outbox (snd (stripe_webhook demo_verify mailer_up demo_request demo_world))
       = [order_confirmation demo_order]
   \<and> stripe_webhook demo_verify mailer_down demo_request
         (snd (stripe_webhook demo_verify mailer_up demo_request demo_world))
       = (Received, snd (stripe_webhook demo_verify mailer_up demo_request demo_world))"
proof -
  have ev: "demo_verify (payload demo_request) ''good''
              = Some \<lparr>ev_type = ''payment_intent.succeeded'', ev_pi = ''pi_1''\<rparr>"
    by (simp add: demo_defs)
  have sg: "signature demo_request = Some ''good''" "''good'' \<noteq> []"
    by (simp_all add: demo_defs)
  have ty: "ev_type \<lparr>ev_type = ''payment_intent.succeeded'', ev_pi = ''pi_1''\<rparr>
              = ''payment_intent.succeeded''"
    by simp
  have paid: "order_by_intent (orders (demo_world\<lparr>orders := [demo_order\<lparr>status := ''PAID''\<rparr>]\<rparr>))
                (ev_pi \<lparr>ev_type = ''payment_intent.succeeded'', ev_pi = ''pi_1''\<rparr>)
              = Some (demo_order\<lparr>status := ''PAID''\<rparr>)"
    by (simp add: demo_defs order_by_intent_def)
  have pend: "order_by_intent (orders demo_world)
                (ev_pi \<lparr>ev_type = ''payment_intent.succeeded'', ev_pi = ''pi_1''\<rparr>)
              = Some demo_order"
    by (simp add: demo_defs order_by_intent_def)
  have a: "stripe_webhook demo_verify mailer_up demo_request
             (demo_world\<lparr>orders := [demo_order\<lparr>status := ''PAID''\<rparr>]\<rparr>)
           = (Received, demo_world\<lparr>orders := [demo_order\<lparr>status := ''PAID''\<rparr>]\<rparr>)"
    using payment_webhook_idempotent [where verify_webhook = demo_verify and m = mailer_up, OF sg ev ty paid]
    by (simp add: demo_order_def)
  have st: "status demo_order = ''PENDING''"
    by (simp add: demo_order_def)
  from payment_webhook_idempotent [where verify_webhook = demo_verify and ?m1.0 = mailer_up
         and ?m2.0 = mailer_down, OF sg ev ty pend] st
  obtain s1 where b: "stripe_webhook demo_verify mailer_up demo_request demo_world = (Received, s1)"
      "stripe_webhook demo_verify mailer_down demo_request s1 = (Received, s1)"
      "products s1 = decrement_stock (products demo_world) (items_of demo_world demo_order)"
      "outbox s1 = outbox demo_world @ [order_confirmation demo_order]"
    by blast
  have c: "map stock (decrement_stock (products demo_world) (items_of demo_world demo_order))
             = [7, 30]"
    by (simp add: demo_defs items_of_def decrement_item_def get_product_def)
  have d: "outbox demo_world = []"
    by (simp add: demo_world_def)
  from pend have e: "order_by_intent (orders demo_world) ''pi_1'' = Some demo_order"
    by simp
  show ?thesis using a b c d e st by simp
qed

section \<open>Admin refund and status change\<close>

lemma get_order_update:
  "(\<And>r. o_id (f r) = o_id r) \<Longrightarrow>
   get_order (update_first (\<lambda>r. o_id r = oid) f os) oid = map_option f (get_order os oid)"
  by (simp add: get_order_def find_update_first_same)

lemma get_product_update:
  "(\<And>p. p_id (f p) = p_id p) \<Longrightarrow>
   get_product (update_first (\<lambda>p. p_id p = pid) f ps) pid'
     = (if pid' = pid then map_option f (get_product ps pid) else get_product ps pid')"
  unfolding get_product_def by (induction ps) auto

lemma restock_item_get:
  "get_product (restock_item ps item) pid
     = map_option (\<lambda>p. p\<lparr>stock := stock p + restocked pid [item]\<rparr>) (get_product ps pid)"
  by (cases "get_product ps pid")
     (auto simp: restock_item_def restocked_def get_product_update split: option.splits)

lemma restock_get:
  "get_product (restock ps its) pid
     = map_option (\<lambda>p. p\<lparr>stock := stock p + restocked pid its\<rparr>) (get_product ps pid)"
proof (induction its arbitrary: ps)
  case Nil
  show ?case by (cases "get_product ps pid") (simp_all add: restocked_def)
next
  case (Cons item its)
  have r: "restocked pid (item # its) = restocked pid [item] + restocked pid its"
    by (simp add: restocked_def)
  show ?case
    by (cases "get_product ps pid") (simp_all add: Cons.IH restock_item_get r add.assoc)
qed


lemma update_first_fixed: "find P xs = Some x \<Longrightarrow> f x = x \<Longrightarrow> update_first P f xs = xs"
  by (induction xs) (auto split: if_splits)

text \<open>
  Claim C5. For an existing order, the refund is rejected with nothing changed when the order
  has no payment-intent reference, and rejected with nothing changed when it has one and its
  status is already REFUNDED. When the gateway's refund call fails, the handler reports the
  failure message and the orders (status and notification flags included), the products
  (stock included), the order items and the outbox are as before.
\<close>

theorem refund_rejected_or_aborted:
  assumes "get_order (orders s) oid = Some ord"
  shows "(\<not> truthy (stripe_payment_intent_id ord) \<longrightarrow>
            order_refund refund_create oid s = (Redirect ''No payment to refund'' ''error'', s))
         \<and> (truthy (stripe_payment_intent_id ord) \<and> status ord = ''REFUNDED'' \<longrightarrow>
            order_refund refund_create oid s = (Redirect ''Already refunded'' ''error'', s))
         \<and> (stripe_payment_intent_id ord = Some pi \<and> pi \<noteq> [] \<and> status ord \<noteq> ''REFUNDED''
              \<and> refund_create pi = Inl msg \<longrightarrow>
            (\<exists>s'. order_refund refund_create oid s
                     = (Redirect (''Refund failed: '' @ msg) ''error'', s')
                  \<and> orders s' = orders s \<and> products s' = products s
                  \<and> order_items s' = order_items s \<and> outbox s' = outbox s))"
  using assms
  by (cases "stripe_payment_intent_id ord") (auto simp: order_refund_def)

text \<open>
  Claim C6. For an order with a payment-intent reference and a status other than REFUNDED, a
  refund that the gateway accepts calls the gateway with the stored reference, sets the
  status to REFUNDED, and adds to the stock of every product the quantities of the order's
  items that hold a live reference to it, whatever the order's status was before.
\<close>

theorem refund_restocks:
  assumes "get_order (orders s) oid = Some ord"
    and "stripe_payment_intent_id ord = Some pi" and "pi \<noteq> []"
    and "status ord \<noteq> ''REFUNDED''"
    and "refund_create pi = Inr u"
  shows "\<exists>s'. order_refund refund_create oid s
                = (Redirect ''Refund issued successfully'' ''success'', s')
              \<and> refund_calls s' = refund_calls s @ [pi]
              \<and> get_order (orders s') oid = Some (ord\<lparr>status := ''REFUNDED''\<rparr>)
              \<and> (\<forall>pid. get_product (products s') pid
                    = map_option (\<lambda>p. p\<lparr>stock := stock p + restocked pid (items_of s ord)\<rparr>)
                        (get_product (products s) pid))
              \<and> order_items s' = order_items s"
  using assms by (simp add: order_refund_def get_order_update restock_get)

text \<open>
  Claim C7, amended. Setting SHIPPED on an order whose \<open>shipping_notified\<close> flag is
  false attempts the shipping email once; when the send call returns, the flag becomes true
  and setting SHIPPED again changes nothing and attempts no email. When the send call raises,
  the flag stays false. On an order whose flag is already true no email is attempted.
\<close>

theorem shipping_notification_once:
  assumes "get_order (orders s) oid = Some ord"
  shows "(\<not> shipping_notified ord \<and> send_email (shipping_notification ord) \<longrightarrow>
            (\<exists>s1. order_status send_email oid (Some ''SHIPPED'') s = (StatusForm, s1)
                 \<and> outbox s1 = outbox s @ [shipping_notification ord]
                 \<and> get_order (orders s1) oid
                     = Some (ord\<lparr>status := ''SHIPPED'', shipping_notified := True\<rparr>)
                 \<and> order_status m2 oid (Some ''SHIPPED'') s1 = (StatusForm, s1)))
         \<and> (shipping_notified ord \<longrightarrow>
            (\<exists>s1. order_status send_email oid (Some ''SHIPPED'') s = (StatusForm, s1)
                 \<and> outbox s1 = outbox s
                 \<and> get_order (orders s1) oid = Some (ord\<lparr>status := ''SHIPPED''\<rparr>)))
         \<and> (\<not> shipping_notified ord \<and> \<not> send_email (shipping_notification ord) \<longrightarrow>
            (\<exists>s1. order_status send_email oid (Some ''SHIPPED'') s = (StatusForm, s1)
                 \<and> outbox s1 = outbox s @ [shipping_notification ord]
                 \<and> get_order (orders s1) oid = Some (ord\<lparr>status := ''SHIPPED''\<rparr>)))"
proof (intro conjI impI)
  have sn: "shipping_notification (ord\<lparr>status := ''SHIPPED''\<rparr>) = shipping_notification ord"
    by (simp add: shipping_notification_def)
  have v: "''SHIPPED'' \<in> set valid" by (simp add: valid_def)
  {
    assume h: "\<not> shipping_notified ord \<and> send_email (shipping_notification ord)"
    let ?os1 = "update_first (\<lambda>r. o_id r = oid) (\<lambda>r. r\<lparr>shipping_notified := True\<rparr>)
                 (update_first (\<lambda>r. o_id r = oid) (\<lambda>r. r\<lparr>status := ''SHIPPED''\<rparr>) (orders s))"
    let ?s1 = "s\<lparr>orders := ?os1, outbox := outbox s @ [shipping_notification ord]\<rparr>"
    have first: "order_status send_email oid (Some ''SHIPPED'') s = (StatusForm, ?s1)"
      using assms h v by (simp add: order_status_def Let_def sn)
    have look: "get_order ?os1 oid = Some (ord\<lparr>status := ''SHIPPED'', shipping_notified := True\<rparr>)"
      using assms by (simp add: get_order_update)
    have same: "update_first (\<lambda>r. o_id r = oid) (\<lambda>r. r\<lparr>status := ''SHIPPED''\<rparr>) ?os1 = ?os1"
      by (rule update_first_fixed [OF look [unfolded get_order_def]]) simp
    have second: "order_status m2 oid (Some ''SHIPPED'') ?s1 = (StatusForm, ?s1)"
      using look v same by (simp add: order_status_def Let_def)
    show "\<exists>s1. order_status send_email oid (Some ''SHIPPED'') s = (StatusForm, s1)
                 \<and> outbox s1 = outbox s @ [shipping_notification ord]
                 \<and> get_order (orders s1) oid
                     = Some (ord\<lparr>status := ''SHIPPED'', shipping_notified := True\<rparr>)
                 \<and> order_status m2 oid (Some ''SHIPPED'') s1 = (StatusForm, s1)"
      using first look second by simp
  }
  {
    assume "shipping_notified ord"
    then show "\<exists>s1. order_status send_email oid (Some ''SHIPPED'') s = (StatusForm, s1)
                 \<and> outbox s1 = outbox s
                 \<and> get_order (orders s1) oid = Some (ord\<lparr>status := ''SHIPPED''\<rparr>)"
      using assms v by (simp add: order_status_def Let_def get_order_update)
  }
  {
    assume "\<not> shipping_notified ord \<and> \<not> send_email (shipping_notification ord)"
    then show "\<exists>s1. order_status send_email oid (Some ''SHIPPED'') s = (StatusForm, s1)
                 \<and> outbox s1 = outbox s @ [shipping_notification ord]
                 \<and> get_order (orders s1) oid = Some (ord\<lparr>status := ''SHIPPED''\<rparr>)"
      using assms v by (simp add: order_status_def Let_def get_order_update sn)
  }
qed


theorem refund_rejected_or_aborted_witness:
  "order_refund refund_ok ''o1'' (demo_world\<lparr>orders := [demo_order\<lparr>stripe_payment_intent_id := None\<rparr>]\<rparr>)
     = (Redirect ''No payment to refund'' ''error'',
        demo_world\<lparr>orders := [demo_order\<lparr>stripe_payment_intent_id := None\<rparr>]\<rparr>)
   \<and> order_refund refund_ok ''o1'' (demo_world\<lparr>orders := [demo_order\<lparr>status := ''REFUNDED''\<rparr>]\<rparr>)
     = (Redirect ''Already refunded'' ''error'',
        demo_world\<lparr>orders := [demo_order\<lparr>status := ''REFUNDED''\<rparr>]\<rparr>)
   \<and> refund_down ''pi_1'' = Inl ''card_declined''
   \<and> fst (order_refund refund_down ''o1'' demo_world)
       = Redirect ''Refund failed: card_declined'' ''error''
   \<and> orders (snd (order_refund refund_down ''o1'' demo_world)) = [demo_order]
   \<and> products (snd (order_refund refund_down ''o1'' demo_world)) = [dragon, hidden_stand]"
proof -
  have a: "get_order (orders (demo_world\<lparr>orders := [demo_order\<lparr>stripe_payment_intent_id := None\<rparr>]\<rparr>)) ''o1''
             = Some (demo_order\<lparr>stripe_payment_intent_id := None\<rparr>)"
    by (simp add: get_order_def demo_order_def)
  have b: "get_order (orders (demo_world\<lparr>orders := [demo_order\<lparr>status := ''REFUNDED''\<rparr>]\<rparr>)) ''o1''
             = Some (demo_order\<lparr>status := ''REFUNDED''\<rparr>)"
    by (simp add: get_order_def demo_order_def)
  have c: "get_order (orders demo_world) ''o1'' = Some demo_order"
    by (simp add: get_order_def demo_order_def demo_world_def)
  have d: "stripe_payment_intent_id demo_order = Some ''pi_1''" "status demo_order = ''PENDING''"
    by (simp_all add: demo_order_def)
  have e: "refund_down ''pi_1'' = Inl ''card_declined''"
    by (simp add: refund_down_def)
  have f: "orders demo_world = [demo_order]" "products demo_world = [dragon, hidden_stand]"
    by (simp_all add: demo_world_def)
  show ?thesis
    using refund_rejected_or_aborted [where refund_create = refund_ok, OF a]
          refund_rejected_or_aborted [where refund_create = refund_ok, OF b]
          refund_rejected_or_aborted [where refund_create = refund_down and pi = "''pi_1''"
            and msg = "''card_declined''", OF c]
          d e f
    by auto
qed

theorem refund_restocks_witness:
  "status demo_order = ''PENDING''
   \<and> fst (order_refund refund_ok ''o1'' demo_world)
       = Redirect ''Refund issued successfully'' ''success''
   \<and> refund_calls (snd (order_refund refund_ok ''o1'' demo_world)) = [''pi_1'']
   \<and> get_order (orders (snd (order_refund refund_ok ''o1'' demo_world))) ''o1''
       = Some (demo_order\<lparr>status := ''REFUNDED''\<rparr>)
   \<and> get_product (products (snd (order_refund refund_ok ''o1'' demo_world))) ''p1''
       = Some (dragon\<lparr>stock := 13\<rparr>)"
proof -
  have c: "get_order (orders demo_world) ''o1'' = Some demo_order"
    by (simp add: get_order_def demo_order_def demo_world_def)
  have d: "stripe_payment_intent_id demo_order = Some ''pi_1''" "''pi_1'' \<noteq> []"
    "status demo_order \<noteq> ''REFUNDED''" "refund_ok ''pi_1'' = Inr ()"
    by (simp_all add: demo_order_def refund_ok_def)
  have e: "restocked ''p1'' (items_of demo_world demo_order) = 3"
    by (simp add: restocked_def items_of_def demo_defs)
  have f: "get_product (products demo_world) ''p1'' = Some dragon"
     "refund_calls demo_world = []" "status demo_order = ''PENDING''" "stock dragon = 10"
    by (simp_all add: get_product_def demo_defs)
  show ?thesis
    using refund_restocks [where refund_create = refund_ok, OF c d] e f by auto
qed

theorem shipping_notification_once_witness:
  "shipping_notified demo_order = False
   \<and> mailer_up (shipping_notification demo_order)
   \<and> outbox (snd (order_status mailer_up ''o1'' (Some ''SHIPPED'') demo_world))
       = [shipping_notification demo_order]
   \<and> get_order (orders (snd (order_status mailer_up ''o1'' (Some ''SHIPPED'') demo_world))) ''o1''
       = Some (demo_order\<lparr>status := ''SHIPPED'', shipping_notified := True\<rparr>)
   \<and> order_status mailer_down ''o1'' (Some ''SHIPPED'')
         (snd (order_status mailer_up ''o1'' (Some ''SHIPPED'') demo_world))
       = (StatusForm, snd (order_status mailer_up ''o1'' (Some ''SHIPPED'') demo_world))"
proof -
  have c: "get_order (orders demo_world) ''o1'' = Some demo_order"
    by (simp add: get_order_def demo_order_def demo_world_def)
  have d: "shipping_notified demo_order = False" "mailer_up (shipping_notification demo_order)"
    "outbox demo_world = []"
    by (simp_all add: demo_order_def mailer_up_def demo_world_def)
  show ?thesis
    using shipping_notification_once [where send_email = mailer_up and ?m2.0 = mailer_down, OF c] d
    by auto
qed

text \<open>
  Claim C7 as stated fails when the send call raises: the flag is still false after SHIPPED
  was set, and setting SHIPPED a second time attempts a second email.
\<close>

theorem shipping_flag_counterexample:
  "shipping_notified demo_order = False
   \<and> map shipping_notified
        (orders (snd (order_status mailer_down ''o1'' (Some ''SHIPPED'') demo_world))) = [False]
   \<and> length (outbox (snd (order_status mailer_down ''o1'' (Some ''SHIPPED'')
                (snd (order_status mailer_down ''o1'' (Some ''SHIPPED'') demo_world))))) = 2"
  by (simp add: order_status_def get_order_def valid_def Let_def demo_defs)

section \<open>Checkout validation and totals\<close>

lemma product_map_None_iff:
  "pid \<in> set ids \<Longrightarrow>
   product_map ps ids pid = None \<longleftrightarrow> \<not> (\<exists>p\<in>set ps. p_id p = pid \<and> visible p)"
  by (auto simp: product_map_def map_of_eq_None_iff image_iff)

lemma validate_items_ok:
  "validate_items pm its sub acc = Inr (sub', acc') \<Longrightarrow>
   (\<forall>i\<in>set its. \<exists>p. pm (item_id i) = Some p \<and> item_quantity i \<le> stock p)
   \<and> sub' = sub + sum_list (map (\<lambda>i. unit_price pm i * item_quantity i) its)
   \<and> map d_quantity acc' = map d_quantity acc @ map item_quantity its"
proof (induction its arbitrary: sub acc)
  case Nil
  then show ?case by simp
next
  case (Cons item its)
  from Cons.prems obtain p where p: "pm (item_id item) = Some p" "\<not> stock p < item_quantity item"
    and rest: "validate_items pm its (sub + price p * item_quantity item)
                 (acc @ [\<lparr>d_product_id = p_id p, d_product_name = p_name p,
                          d_price_at_time = price p, d_quantity = item_quantity item\<rparr>])
               = Inr (sub', acc')"
    by (auto split: option.splits if_splits)
  from Cons.IH [OF rest] p show ?case
    by (simp add: unit_price_def)
qed

lemma validate_items_not_found:
  assumes "\<forall>i\<in>set pre. \<exists>p. pm (item_id i) = Some p \<and> item_quantity i \<le> stock p"
    and "pm (item_id item) = None"
  shows "validate_items pm (pre @ item # post) sub acc = Inl (ProductNotFound (item_id item))"
  using assms by (induction pre arbitrary: sub acc) auto

lemma validate_items_insufficient:
  assumes "\<forall>i\<in>set pre. \<exists>p. pm (item_id i) = Some p \<and> item_quantity i \<le> stock p"
    and "pm (item_id item) = Some p" and "stock p < item_quantity item"
  shows "validate_items pm (pre @ item # post) sub acc
           = Inl (InsufficientStock (p_name p) (stock p))"
  using assms by (induction pre arbitrary: sub acc) auto

text \<open>
  Claim C3, amended. After the required-fields check, the handler walks the items in list
  order and checks each one first for a visible product and then for stock, stopping at the
  first item that fails. So when every earlier item resolves to a visible product with
  enough stock, an item whose product id resolves to no visible product gives NotFound
  naming that id, and an item with too little stock gives InsufficientStock; in both cases
  nothing is stored.
\<close>

theorem checkout_first_failing_item:
  assumes "truthy (c_name (customer req))" and "truthy (c_email (customer req))"
    and "items req = pre @ item # post"
    and "\<forall>i\<in>set pre. \<exists>p. product_map (products s) (map item_id (items req)) (item_id i) = Some p
                          \<and> item_quantity i \<le> stock p"
  shows "(\<not> (\<exists>p\<in>set (products s). p_id p = item_id item \<and> visible p) \<longrightarrow>
            create_payment_intent env req s = (Inl (ProductNotFound (item_id item)), s))
         \<and> (\<forall>p. product_map (products s) (map item_id (items req)) (item_id item) = Some p
                 \<and> stock p < item_quantity item \<longrightarrow>
               create_payment_intent env req s
                 = (Inl (InsufficientStock (p_name p) (stock p)), s))"
proof (intro conjI impI allI)
  let ?pm = "product_map (products s) (map item_id (items req))"
  have ne: "items req \<noteq> []" using assms(3) by simp
  have mem: "item_id item \<in> set (map item_id (items req))" using assms(3) by simp
  {
    assume "\<not> (\<exists>p\<in>set (products s). p_id p = item_id item \<and> visible p)"
    then have "?pm (item_id item) = None"
      using product_map_None_iff [OF mem] by simp
    from validate_items_not_found [OF assms(4) this, of post 0 "[]"]
    show "create_payment_intent env req s = (Inl (ProductNotFound (item_id item)), s)"
      using assms(1,2) ne by (simp add: create_payment_intent_def assms(3) [symmetric])
  }
  {
    fix p
    assume "?pm (item_id item) = Some p \<and> stock p < item_quantity item"
    then have "validate_items ?pm (pre @ item # post) 0 []
                 = Inl (InsufficientStock (p_name p) (stock p))"
      using validate_items_insufficient [OF assms(4), of item p post 0 "[]"] by simp
    then show "create_payment_intent env req s
                 = (Inl (InsufficientStock (p_name p) (stock p)), s)"
      using assms(1,2) ne by (simp add: create_payment_intent_def assms(3) [symmetric])
  }
qed

lemma first_failing_item:
  assumes "\<exists>i\<in>set its. pm (item_id i) = None
             \<or> (\<exists>p. pm (item_id i) = Some p \<and> stock p < item_quantity i)"
  shows "\<exists>pre item post. its = pre @ item # post
           \<and> (\<forall>i\<in>set pre. \<exists>p. pm (item_id i) = Some p \<and> item_quantity i \<le> stock p)
           \<and> (pm (item_id item) = None
                \<or> (\<exists>p. pm (item_id item) = Some p \<and> stock p < item_quantity item))"
proof -
  let ?bad = "\<lambda>i. pm (item_id i) = None
                \<or> (\<exists>p. pm (item_id i) = Some p \<and> stock p < item_quantity i)"
  from split_list_first_prop [of its ?bad] assms
  obtain pre item post where s: "its = pre @ item # post" "?bad item" "\<forall>i\<in>set pre. \<not> ?bad i"
    by blast
  have "\<exists>p. pm (item_id i) = Some p \<and> item_quantity i \<le> stock p" if "i \<in> set pre" for i
  proof -
    from s(3) that have n: "\<not> ?bad i" by blast
    then obtain p where p: "pm (item_id i) = Some p" by (cases "pm (item_id i)") auto
    with n have "\<not> stock p < item_quantity i" by simp
    with p show ?thesis by simp
  qed
  with s(1,2) show ?thesis by blast
qed

text \<open>
  Claim C4. A checkout whose item list is empty, whose name or email is missing, one of
  whose product ids resolves to no visible product, or one of whose quantities exceeds the
  stock of its product, returns an error and leaves the whole store unchanged: no order and
  no order item is added. The error is MissingFields exactly when a required field is
  missing; otherwise it is the error of the first item in the list that fails, NotFound
  naming its id when no visible product has that id, and InsufficientStock naming the
  product and its stock when the quantity exceeds the stock.
\<close>

theorem failed_checkout_persists_nothing:
  assumes "items req = [] \<or> \<not> truthy (c_name (customer req)) \<or> \<not> truthy (c_email (customer req))
           \<or> (\<exists>i\<in>set (items req). \<not> (\<exists>p\<in>set (products s). p_id p = item_id i \<and> visible p))
           \<or> (\<exists>i\<in>set (items req). \<exists>p.
                 product_map (products s) (map item_id (items req)) (item_id i) = Some p
                 \<and> stock p < item_quantity i)"
  shows "\<exists>e. create_payment_intent env req s = (Inl e, s)
           \<and> (if items req = [] \<or> \<not> truthy (c_name (customer req))
                  \<or> \<not> truthy (c_email (customer req))
               then e = MissingFields
               else (\<exists>pre item post. items req = pre @ item # post
                      \<and> (\<forall>i\<in>set pre. \<exists>p.
                            product_map (products s) (map item_id (items req)) (item_id i) = Some p
                            \<and> item_quantity i \<le> stock p)
                      \<and> (if \<exists>p\<in>set (products s). p_id p = item_id item \<and> visible p
                          then (\<exists>p. product_map (products s) (map item_id (items req))
                                       (item_id item) = Some p
                                    \<and> stock p < item_quantity item
                                    \<and> e = InsufficientStock (p_name p) (stock p))
                          else e = ProductNotFound (item_id item))))"
proof (cases "items req = [] \<or> \<not> truthy (c_name (customer req))
                \<or> \<not> truthy (c_email (customer req))")
  case True
  then have "create_payment_intent env req s = (Inl MissingFields, s)"
    by (auto simp: create_payment_intent_def)
  with True show ?thesis by simp
next
  case False
  let ?pm = "product_map (products s) (map item_id (items req))"
  have none: "?pm (item_id i) = None \<longleftrightarrow> \<not> (\<exists>p\<in>set (products s). p_id p = item_id i \<and> visible p)"
    if "i \<in> set (items req)" for i
    using that by (intro product_map_None_iff) simp
  from assms False have "\<exists>i\<in>set (items req). ?pm (item_id i) = None
             \<or> (\<exists>p. ?pm (item_id i) = Some p \<and> stock p < item_quantity i)"
    using none by blast
  from first_failing_item [OF this]
  obtain pre item post where sp: "items req = pre @ item # post"
    and pre: "\<forall>i\<in>set pre. \<exists>p. ?pm (item_id i) = Some p \<and> item_quantity i \<le> stock p"
    and bad: "?pm (item_id item) = None
                \<or> (\<exists>p. ?pm (item_id item) = Some p \<and> stock p < item_quantity item)"
    by blast
  have mem: "item \<in> set (items req)" using sp by simp
  have fields: "items req \<noteq> []" "truthy (c_name (customer req))" "truthy (c_email (customer req))"
    using False by auto
  show ?thesis
  proof (cases "\<exists>p\<in>set (products s). p_id p = item_id item \<and> visible p")
    case True
    with none [OF mem] bad obtain p where p: "?pm (item_id item) = Some p"
        "stock p < item_quantity item"
      by auto
    have "validate_items ?pm (pre @ item # post) 0 []
            = Inl (InsufficientStock (p_name p) (stock p))"
      by (rule validate_items_insufficient [OF pre p])
    then have "create_payment_intent env req s
                 = (Inl (InsufficientStock (p_name p) (stock p)), s)"
      using fields by (simp add: create_payment_intent_def sp [symmetric])
    with False True sp pre p show ?thesis by auto
  next
    case nf: False
    with none [OF mem] have "?pm (item_id item) = None" by simp
    from validate_items_not_found [OF pre this, of post 0 "[]"]
    have "create_payment_intent env req s = (Inl (ProductNotFound (item_id item)), s)"
      using fields by (simp add: create_payment_intent_def sp [symmetric])
    with False nf sp pre show ?thesis by auto
  qed
qed


lemma checkout_success:
  assumes "create_payment_intent env req s = (Inr ok, s')"
  obtains sub ds and intent :: payment_intent where
    "validate_items (product_map (products s) (map item_id (items req))) (items req) 0 [] = Inr (sub, ds)"
    "orders s' = orders s @ [\<lparr>o_id = generate_cuid env 0,
                            order_number = generate_order_number env,
                            status = ''PENDING'',
                            customer_name = (case c_name (customer req) of Some n \<Rightarrow> n | None \<Rightarrow> []),
                            customer_email = (case c_email (customer req) of Some e \<Rightarrow> e | None \<Rightarrow> []),
                            shipping_address = c_address (customer req),
                            subtotal = sub,
                            shipping_cost = get_shipping_fee (settings s),
                            total = sub + get_shipping_fee (settings s),
                            stripe_payment_intent_id = Some (pi_id intent),
                            confirmation_sent = False,
                            shipping_notified = False\<rparr>]"
    "order_items s' = order_items s @ new_order_items (generate_cuid env) (generate_cuid env 0) ds"
    "intent_calls s' = intent_calls s @ [\<lparr>amount = sub + get_shipping_fee (settings s),
         pi_currency = get_currency (settings s),
         metadata = (generate_cuid env 0, generate_order_number env)\<rparr>]"
proof -
  let ?pm = "product_map (products s) (map item_id (items req))"
  from assms have f: "items req \<noteq> []" "truthy (c_name (customer req))"
      "truthy (c_email (customer req))"
    by (auto simp: create_payment_intent_def split: if_splits)
  from assms f obtain sub ds where v: "validate_items ?pm (items req) 0 [] = Inr (sub, ds)"
    by (auto simp: create_payment_intent_def split: sum.splits)
  let ?call = "\<lparr>amount = sub + get_shipping_fee (settings s),
         pi_currency = get_currency (settings s),
         metadata = (generate_cuid env 0, generate_order_number env)\<rparr>"
  from assms f v obtain intent where i: "stripe_create_pi env ?call = Inr intent"
    by (auto simp: create_payment_intent_def Let_def split: sum.splits)
  from assms f v i show thesis
    by (intro that [of sub ds intent]) (auto simp: create_payment_intent_def Let_def)
qed


lemma quantity_new_order_items: "map quantity (new_order_items cuid oid ds) = map d_quantity ds"
proof -
  have a: "map quantity (new_order_items cuid oid ds)
             = map (\<lambda>x. d_quantity (snd x)) (enumerate 0 ds)"
    by (simp add: new_order_items_def new_order_item_def split_def)
  have b: "map (\<lambda>x. d_quantity (snd x)) (enumerate 0 ds)
             = map d_quantity (map snd (enumerate 0 ds))"
    by (simp only: map_map comp_def)
  show ?thesis by (simp only: a b map_snd_enumerate)
qed

text \<open>
  Claim C8. An accepted checkout appends one order. Its subtotal is the sum, over the items,
  of the unit price of the resolved product times the quantity; its shipping cost is the
  shipping fee of the first settings row, or 500 without one; its total is subtotal plus
  shipping cost; and the payment intent is requested for that total in the settings'
  currency, or \<open>usd\<close> without a settings row.
\<close>

theorem checkout_totals:
  assumes "create_payment_intent env req s = (Inr ok, s')"
  shows "\<exists>ord call. orders s' = orders s @ [ord]
           \<and> (\<forall>i\<in>set (items req).
                 product_map (products s) (map item_id (items req)) (item_id i) \<noteq> None)
           \<and> subtotal ord
               = sum_list (map (\<lambda>i. unit_price (product_map (products s) (map item_id (items req))) i
                                      * item_quantity i) (items req))
           \<and> shipping_cost ord = (case settings s of [] \<Rightarrow> 500 | st # _ \<Rightarrow> shipping_fee st)
           \<and> total ord = subtotal ord + shipping_cost ord
           \<and> intent_calls s' = intent_calls s @ [call]
           \<and> amount call = total ord
           \<and> pi_currency call = (case settings s of [] \<Rightarrow> ''usd'' | st # _ \<Rightarrow> currency st)"
proof -
  from assms obtain sub ds and intent :: payment_intent where
    v: "validate_items (product_map (products s) (map item_id (items req))) (items req) 0 []
          = Inr (sub, ds)"
    and o: "orders s' = orders s @ [\<lparr>o_id = generate_cuid env 0,
                            order_number = generate_order_number env,
                            status = ''PENDING'',
                            customer_name = (case c_name (customer req) of Some n \<Rightarrow> n | None \<Rightarrow> []),
                            customer_email = (case c_email (customer req) of Some e \<Rightarrow> e | None \<Rightarrow> []),
                            shipping_address = c_address (customer req),
                            subtotal = sub,
                            shipping_cost = get_shipping_fee (settings s),
                            total = sub + get_shipping_fee (settings s),
                            stripe_payment_intent_id = Some (pi_id intent),
                            confirmation_sent = False,
                            shipping_notified = False\<rparr>]"
    and c: "intent_calls s' = intent_calls s @ [\<lparr>amount = sub + get_shipping_fee (settings s),
         pi_currency = get_currency (settings s),
         metadata = (generate_cuid env 0, generate_order_number env)\<rparr>]"
    by (rule checkout_success)
  from validate_items_ok [OF v]
  have r: "\<forall>i\<in>set (items req).
             product_map (products s) (map item_id (items req)) (item_id i) \<noteq> None"
    and sub: "sub = sum_list (map (\<lambda>i. unit_price (product_map (products s) (map item_id (items req))) i
                                      * item_quantity i) (items req))"
    by auto
  let ?ord = "\<lparr>o_id = generate_cuid env 0,
                order_number = generate_order_number env,
                status = ''PENDING'',
                customer_name = (case c_name (customer req) of Some n \<Rightarrow> n | None \<Rightarrow> []),
                customer_email = (case c_email (customer req) of Some e \<Rightarrow> e | None \<Rightarrow> []),
                shipping_address = c_address (customer req),
                subtotal = sub,
                shipping_cost = get_shipping_fee (settings s),
                total = sub + get_shipping_fee (settings s),
                stripe_payment_intent_id = Some (pi_id intent),
                confirmation_sent = False,
                shipping_notified = False\<rparr>"
  let ?call = "\<lparr>amount = sub + get_shipping_fee (settings s),
                 pi_currency = get_currency (settings s),
                 metadata = (generate_cuid env 0, generate_order_number env)\<rparr>"
  have "orders s' = orders s @ [?ord]" by (rule o)
  moreover have "subtotal ?ord = sum_list (map (\<lambda>i. unit_price (product_map (products s) (map item_id (items req))) i
                                      * item_quantity i) (items req))"
    using sub by simp
  moreover have "shipping_cost ?ord = (case settings s of [] \<Rightarrow> 500 | st # _ \<Rightarrow> shipping_fee st)"
    by (simp add: get_shipping_fee_def)
  moreover have "total ?ord = subtotal ?ord + shipping_cost ?ord"
    by simp
  moreover have "intent_calls s' = intent_calls s @ [?call]" by (rule c)
  moreover have "amount ?call = total ?ord" by simp
  moreover have "pi_currency ?call = (case settings s of [] \<Rightarrow> ''usd'' | st # _ \<Rightarrow> currency st)"
    by (simp add: get_currency_def)
  ultimately show ?thesis using r by blast
qed

text \<open>
  Claim C9, amended. The order items persisted by an accepted checkout carry, in order, the
  quantities requested in the cart, and each of them is at most the stock of its product at
  validation time. No lower bound is checked.
\<close>

theorem checkout_item_quantities:
  assumes "create_payment_intent env req s = (Inr ok, s')"
  shows "\<exists>new. order_items s' = order_items s @ new
           \<and> map quantity new = map item_quantity (items req)
           \<and> (\<forall>i\<in>set (items req). \<exists>p.
                 product_map (products s) (map item_id (items req)) (item_id i) = Some p
                 \<and> item_quantity i \<le> stock p)"
proof -
  from assms obtain sub ds where
    v: "validate_items (product_map (products s) (map item_id (items req))) (items req) 0 []
          = Inr (sub, ds)"
    and i: "order_items s' = order_items s @ new_order_items (generate_cuid env) (generate_cuid env 0) ds"
    by (rule checkout_success)
  from validate_items_ok [OF v] show ?thesis
    unfolding i by (intro exI [of _ "new_order_items (generate_cuid env) (generate_cuid env 0) ds"])
                   (simp add: quantity_new_order_items)
qed

text \<open>
  Claim C3 as stated fails: with an item of insufficient stock listed before an item whose
  product does not exist, the answer is InsufficientStock for the first, not NotFound.
\<close>

theorem missing_product_counterexample:
  "get_product (products demo_world) ''ghost'' = None
   \<and> create_payment_intent demo_env
        (order_of [buy ''p1'' 11, buy ''ghost'' 1]) demo_world
       = (Inl (InsufficientStock ''Dragon'' 10), demo_world)"
  by (simp add: create_payment_intent_def product_map_def get_product_def demo_defs)

text \<open>
  Claim C9 as stated fails: a cart of five dragons and minus two dragons is accepted, for a
  positive amount, and an order item of quantity -2 is stored.
\<close>

theorem positive_quantity_counterexample:
  "fst (create_payment_intent demo_env (order_of [buy ''p1'' 5, buy ''p1'' (- 2)]) demo_world)
     = Inr \<lparr>clientSecret = ''secret'', orderNumber = ''ORD-X-Y'', orderId = ''c''\<rparr>
   \<and> map quantity (order_items (snd (create_payment_intent demo_env
          (order_of [buy ''p1'' 5, buy ''p1'' (- 2)]) demo_world)))
     = [3, 5, - 2]
   \<and> map amount (intent_calls (snd (create_payment_intent demo_env
          (order_of [buy ''p1'' 5, buy ''p1'' (- 2)]) demo_world)))
     = [3500]"
  by (simp add: create_payment_intent_def product_map_def Let_def new_order_items_def
        new_order_item_def get_shipping_fee_def get_currency_def demo_defs)

lemma demo_product_map:
  "''p1'' \<in> set ids \<Longrightarrow> product_map (products demo_world) ids ''p1'' = Some dragon"
  by (simp add: product_map_def demo_defs)

theorem checkout_first_failing_item_witness:
  "create_payment_intent demo_env (order_of [buy ''p1'' 2, buy ''ghost'' 1, buy ''p1'' 50]) demo_world
     = (Inl (ProductNotFound ''ghost''), demo_world)
   \<and> create_payment_intent demo_env (order_of [buy ''p1'' 11, buy ''ghost'' 1]) demo_world
     = (Inl (InsufficientStock ''Dragon'' 10), demo_world)"
proof -
  let ?r1 = "order_of [buy ''p1'' 2, buy ''ghost'' 1, buy ''p1'' 50]"
  let ?r2 = "order_of [buy ''p1'' 11, buy ''ghost'' 1]"
  have n: "truthy (c_name (customer ?r1))" "truthy (c_email (customer ?r1))"
      "truthy (c_name (customer ?r2))" "truthy (c_email (customer ?r2))"
    by (simp_all add: order_of_def ann_def)
  have i1: "items ?r1 = [buy ''p1'' 2] @ buy ''ghost'' 1 # [buy ''p1'' 50]"
    by (simp add: order_of_def)
  have i2: "items ?r2 = [] @ buy ''p1'' 11 # [buy ''ghost'' 1]"
    by (simp add: order_of_def)
  have p1: "\<forall>i\<in>set [buy ''p1'' 2]. \<exists>p.
              product_map (products demo_world) (map item_id (items ?r1)) (item_id i) = Some p
              \<and> item_quantity i \<le> stock p"
    by (simp add: demo_product_map order_of_def buy_def dragon_def)
  have p2: "\<forall>i\<in>set []. \<exists>p.
              product_map (products demo_world) (map item_id (items ?r2)) (item_id i) = Some p
              \<and> item_quantity i \<le> stock p"
    by simp
  have ghost: "\<not> (\<exists>p\<in>set (products demo_world). p_id p = item_id (buy ''ghost'' 1) \<and> visible p)"
    by (simp add: demo_defs)
  have short: "product_map (products demo_world) (map item_id (items ?r2)) (item_id (buy ''p1'' 11))
                 = Some dragon \<and> stock dragon < item_quantity (buy ''p1'' 11)"
    by (simp add: demo_product_map order_of_def buy_def dragon_def)
  have d: "p_name dragon = ''Dragon''" "stock dragon = 10" "item_id (buy ''ghost'' 1) = ''ghost''"
    by (simp_all add: dragon_def buy_def)
  show ?thesis
    using checkout_first_failing_item [where env = demo_env, OF n(1,2) i1 p1] ghost
          checkout_first_failing_item [where env = demo_env, OF n(3,4) i2 p2] short d
    by auto
qed

lemma single_item_split: "[x] = pre @ item # post \<Longrightarrow> pre = [] \<and> item = x \<and> post = []"
  by (cases pre) simp_all

theorem failed_checkout_persists_nothing_witness:
  "create_payment_intent demo_env (order_of []) demo_world = (Inl MissingFields, demo_world)
   \<and> create_payment_intent demo_env (order_of [buy ''p2'' 1]) demo_world
       = (Inl (ProductNotFound ''p2''), demo_world)
   \<and> create_payment_intent demo_env (order_of [buy ''p1'' 11]) demo_world
       = (Inl (InsufficientStock ''Dragon'' 10), demo_world)"
proof -
  let ?r0 = "order_of []"
  let ?r2 = "order_of [buy ''p2'' 1]"
  let ?r1 = "order_of [buy ''p1'' 11]"
  have it: "items ?r0 = []" "items ?r2 = [buy ''p2'' 1]" "items ?r1 = [buy ''p1'' 11]"
    by (simp_all add: order_of_def)
  have ok2: "\<not> (items ?r2 = [] \<or> \<not> truthy (c_name (customer ?r2))
                \<or> \<not> truthy (c_email (customer ?r2)))"
    by (simp add: order_of_def ann_def)
  have ok1: "\<not> (items ?r1 = [] \<or> \<not> truthy (c_name (customer ?r1))
                \<or> \<not> truthy (c_email (customer ?r1)))"
    by (simp add: order_of_def ann_def)
  have hidden: "\<not> (\<exists>p\<in>set (products demo_world). p_id p = item_id (buy ''p2'' 1) \<and> visible p)"
    by (simp add: demo_defs)
  have shown: "\<exists>p\<in>set (products demo_world). p_id p = item_id (buy ''p1'' 11) \<and> visible p"
    by (simp add: demo_defs)
  have pm1: "product_map (products demo_world) (map item_id (items ?r1)) (item_id (buy ''p1'' 11))
               = Some dragon"
    by (simp add: demo_product_map order_of_def buy_def)
  have d: "p_name dragon = ''Dragon''" "stock dragon = 10" "item_id (buy ''p2'' 1) = ''p2''"
      "item_quantity (buy ''p1'' 11) = 11"
    by (simp_all add: dragon_def buy_def)
  have a: "items ?r0 = [] \<or> \<not> truthy (c_name (customer ?r0))
           \<or> \<not> truthy (c_email (customer ?r0))
           \<or> (\<exists>i\<in>set (items ?r0).
                 \<not> (\<exists>p\<in>set (products demo_world). p_id p = item_id i \<and> visible p))
           \<or> (\<exists>i\<in>set (items ?r0). \<exists>p.
                 product_map (products demo_world) (map item_id (items ?r0)) (item_id i)
                   = Some p \<and> stock p < item_quantity i)"
    using it(1) by simp
  have b: "items ?r2 = [] \<or> \<not> truthy (c_name (customer ?r2))
           \<or> \<not> truthy (c_email (customer ?r2))
           \<or> (\<exists>i\<in>set (items ?r2).
                 \<not> (\<exists>p\<in>set (products demo_world). p_id p = item_id i \<and> visible p))
           \<or> (\<exists>i\<in>set (items ?r2). \<exists>p.
                 product_map (products demo_world) (map item_id (items ?r2)) (item_id i)
                   = Some p \<and> stock p < item_quantity i)"
    using hidden by (simp add: it(2))
  have c: "items ?r1 = [] \<or> \<not> truthy (c_name (customer ?r1))
           \<or> \<not> truthy (c_email (customer ?r1))
           \<or> (\<exists>i\<in>set (items ?r1).
                 \<not> (\<exists>p\<in>set (products demo_world). p_id p = item_id i \<and> visible p))
           \<or> (\<exists>i\<in>set (items ?r1). \<exists>p.
                 product_map (products demo_world) (map item_id (items ?r1)) (item_id i)
                   = Some p \<and> stock p < item_quantity i)"
    using pm1 d(2,4) by (simp add: it(3))
  from failed_checkout_persists_nothing [OF a, of demo_env] it(1)
  have 1: "create_payment_intent demo_env ?r0 demo_world = (Inl MissingFields, demo_world)"
    by auto
  have "\<exists>e. create_payment_intent demo_env ?r2 demo_world = (Inl e, demo_world)
          \<and> (\<exists>pre item post. items ?r2 = pre @ item # post
                \<and> (\<forall>i\<in>set pre. \<exists>p.
                      product_map (products demo_world) (map item_id (items ?r2)) (item_id i)
                        = Some p \<and> item_quantity i \<le> stock p)
                \<and> (if \<exists>p\<in>set (products demo_world). p_id p = item_id item \<and> visible p
                    then (\<exists>p. product_map (products demo_world) (map item_id (items ?r2))
                                 (item_id item) = Some p
                              \<and> stock p < item_quantity item
                              \<and> e = InsufficientStock (p_name p) (stock p))
                    else e = ProductNotFound (item_id item)))"
    using failed_checkout_persists_nothing [OF b, of demo_env] ok2 by (simp only: if_False)
  then obtain e2 pre2 item2 post2 where r2: "create_payment_intent demo_env ?r2 demo_world = (Inl e2, demo_world)"
    and s2: "items ?r2 = pre2 @ item2 # post2"
    and k2: "if \<exists>p\<in>set (products demo_world). p_id p = item_id item2 \<and> visible p
             then (\<exists>p. product_map (products demo_world) (map item_id (items ?r2))
                                       (item_id item2) = Some p
                       \<and> stock p < item_quantity item2
                       \<and> e2 = InsufficientStock (p_name p) (stock p))
             else e2 = ProductNotFound (item_id item2)"
    by blast
  from s2 have "item2 = buy ''p2'' 1"
    unfolding it(2) by (blast dest: single_item_split)
  with k2 hidden have "e2 = ProductNotFound ''p2''"
    by (simp only: if_False d Bex_def)
  with r2 have 2: "create_payment_intent demo_env ?r2 demo_world
                     = (Inl (ProductNotFound ''p2''), demo_world)"
    by simp
  have "\<exists>e. create_payment_intent demo_env ?r1 demo_world = (Inl e, demo_world)
          \<and> (\<exists>pre item post. items ?r1 = pre @ item # post
                \<and> (\<forall>i\<in>set pre. \<exists>p.
                      product_map (products demo_world) (map item_id (items ?r1)) (item_id i)
                        = Some p \<and> item_quantity i \<le> stock p)
                \<and> (if \<exists>p\<in>set (products demo_world). p_id p = item_id item \<and> visible p
                    then (\<exists>p. product_map (products demo_world) (map item_id (items ?r1))
                                 (item_id item) = Some p
                              \<and> stock p < item_quantity item
                              \<and> e = InsufficientStock (p_name p) (stock p))
                    else e = ProductNotFound (item_id item)))"
    using failed_checkout_persists_nothing [OF c, of demo_env] ok1 by (simp only: if_False)
  then obtain e3 pre3 item3 post3 where r3: "create_payment_intent demo_env ?r1 demo_world = (Inl e3, demo_world)"
    and s3: "items ?r1 = pre3 @ item3 # post3"
    and k3: "if \<exists>p\<in>set (products demo_world). p_id p = item_id item3 \<and> visible p
             then (\<exists>p. product_map (products demo_world) (map item_id (items ?r1))
                                       (item_id item3) = Some p
                       \<and> stock p < item_quantity item3
                       \<and> e3 = InsufficientStock (p_name p) (stock p))
             else e3 = ProductNotFound (item_id item3)"
    by blast
  from s3 have i3: "item3 = buy ''p1'' 11"
    unfolding it(3) by (blast dest: single_item_split)
  from k3 shown obtain p where "product_map (products demo_world) (map item_id (items ?r1))
                                  (item_id (buy ''p1'' 11)) = Some p"
      "e3 = InsufficientStock (p_name p) (stock p)"
    unfolding i3 by (simp only: if_True) blast
  with pm1 d have "e3 = InsufficientStock ''Dragon'' 10"
    by simp
  with r3 have 3: "create_payment_intent demo_env ?r1 demo_world
                     = (Inl (InsufficientStock ''Dragon'' 10), demo_world)"
    by simp
  show ?thesis using 1 2 3 by simp
qed

lemma demo_checkout_result:
  "fst (create_payment_intent demo_env (order_of [buy ''p1'' q]) (demo_world\<lparr>settings := st\<rparr>))
     = (if 10 < q then Inl (InsufficientStock ''Dragon'' 10)
        else Inr \<lparr>clientSecret = ''secret'', orderNumber = ''ORD-X-Y'', orderId = ''c''\<rparr>)"
  by (simp add: create_payment_intent_def product_map_def Let_def demo_defs)

theorem checkout_totals_witness:
  "fst (create_payment_intent demo_env (order_of [buy ''p1'' 2]) demo_world)
     = Inr \<lparr>clientSecret = ''secret'', orderNumber = ''ORD-X-Y'', orderId = ''c''\<rparr>
   \<and> map subtotal (orders (snd (create_payment_intent demo_env (order_of [buy ''p1'' 2])
                                 demo_world))) = [3000, 2000]
   \<and> map shipping_cost (orders (snd (create_payment_intent demo_env (order_of [buy ''p1'' 2])
                                      demo_world))) = [500, 500]
   \<and> map total (orders (snd (create_payment_intent demo_env (order_of [buy ''p1'' 2])
                              demo_world))) = [3500, 2500]
   \<and> map pi_currency (intent_calls (snd (create_payment_intent demo_env
                                           (order_of [buy ''p1'' 2]) demo_world))) = [''usd'']
   \<and> map total (orders (snd (create_payment_intent demo_env (order_of [buy ''p1'' 2])
                              (demo_world\<lparr>settings := [euro_settings]\<rparr>)))) = [3500, 2700]
   \<and> map pi_currency (intent_calls (snd (create_payment_intent demo_env
            (order_of [buy ''p1'' 2]) (demo_world\<lparr>settings := [euro_settings]\<rparr>)))) = [''eur'']"
proof -
  let ?r = "order_of [buy ''p1'' 2]"
  let ?w = "demo_world\<lparr>settings := [euro_settings]\<rparr>"
  let ?ok = "\<lparr>clientSecret = ''secret'', orderNumber = ''ORD-X-Y'', orderId = ''c''\<rparr>"
  have run1: "create_payment_intent demo_env ?r demo_world
                = (Inr ?ok, snd (create_payment_intent demo_env ?r demo_world))"
    using demo_checkout_result [of 2 "[]"] by (simp add: demo_world_def prod_eq_iff)
  have run2: "create_payment_intent demo_env ?r ?w
                = (Inr ?ok, snd (create_payment_intent demo_env ?r ?w))"
    using demo_checkout_result [of 2 "[euro_settings]"] by (simp add: prod_eq_iff)
  have sum: "sum_list (map (\<lambda>i. unit_price (product_map (products demo_world)
                                      (map item_id (items ?r))) i * item_quantity i) (items ?r))
               = 2000"
    by (simp add: unit_price_def product_map_def demo_defs)
  have w: "orders demo_world = [demo_order]" "intent_calls demo_world = []"
      "settings demo_world = []" "products ?w = products demo_world" "orders ?w = [demo_order]"
      "intent_calls ?w = []" "settings ?w = [euro_settings]"
      "subtotal demo_order = 3000" "shipping_cost demo_order = 500" "total demo_order = 3500"
      "shipping_fee euro_settings = 700" "currency euro_settings = ''eur''"
    by (simp_all add: demo_world_def demo_order_def euro_settings_def)
  from checkout_totals [OF run1] obtain ord1 and call1 :: intent_request where
    a: "orders (snd (create_payment_intent demo_env ?r demo_world)) = [demo_order, ord1]"
       "subtotal ord1 = 2000" "shipping_cost ord1 = 500" "total ord1 = 2500"
       "intent_calls (snd (create_payment_intent demo_env ?r demo_world)) = [call1]"
       "pi_currency call1 = ''usd''"
    by (auto simp: sum w)
  from checkout_totals [OF run2] obtain ord2 and call2 :: intent_request where
    b: "orders (snd (create_payment_intent demo_env ?r ?w)) = [demo_order, ord2]"
       "total ord2 = 2700"
       "intent_calls (snd (create_payment_intent demo_env ?r ?w)) = [call2]"
       "pi_currency call2 = ''eur''"
    by (auto simp: sum w)
  have res: "fst (create_payment_intent demo_env ?r demo_world) = Inr ?ok"
    using demo_checkout_result [of 2 "[]"] by (simp add: demo_world_def)
  show ?thesis
    using res a b w(8-10) by simp
qed

theorem checkout_item_quantities_witness:
  "fst (create_payment_intent demo_env (order_of [buy ''p1'' 2]) demo_world)
     = Inr \<lparr>clientSecret = ''secret'', orderNumber = ''ORD-X-Y'', orderId = ''c''\<rparr>
   \<and> map quantity (order_items (snd (create_payment_intent demo_env (order_of [buy ''p1'' 2])
                                       demo_world))) = [3, 2]"
proof -
  let ?r = "order_of [buy ''p1'' 2]"
  let ?ok = "\<lparr>clientSecret = ''secret'', orderNumber = ''ORD-X-Y'', orderId = ''c''\<rparr>"
  have run1: "create_payment_intent demo_env ?r demo_world
                = (Inr ?ok, snd (create_payment_intent demo_env ?r demo_world))"
    using demo_checkout_result [of 2 "[]"] by (simp add: demo_world_def prod_eq_iff)
  have w: "order_items demo_world = [demo_item]" "quantity demo_item = 3"
      "map item_quantity (items ?r) = [2]"
    by (simp_all add: demo_world_def demo_item_def order_of_def buy_def)
  from checkout_item_quantities [OF run1] obtain new where
    "order_items (snd (create_payment_intent demo_env ?r demo_world)) = demo_item # new"
    "map quantity new = [2]"
    by (auto simp: w)
  moreover have "fst (create_payment_intent demo_env ?r demo_world) = Inr ?ok"
    using demo_checkout_result [of 2 "[]"] by (simp add: demo_world_def)
  ultimately show ?thesis using w(2) by simp
qed

end
